theory Spec2Isabelle
  imports Main "HOL-Library.Sublist"
begin

section \<open>The speech recognition page (src/routes/+page.svelte)\<close>

text \<open>
  The page keeps six module-level variables and reacts to two kinds of input: a click on
  its single button and the events of the browser's SpeechRecognition object. The
  variables become a record that every function takes and returns. Two fields are added
  for the effects that leave the page: \<open>calls\<close>, the \<open>start()\<close> and \<open>stop()\<close> calls made on
  the recognition object, in order, and \<open>console\<close>, the lines written with
  \<open>console.error\<close>.

  Strings are \<open>string\<close>, with text outside ASCII written as its UTF-8 bytes. The page
  only compares and concatenates strings, so the encoding is not observable.
\<close>

subsection \<open>Data\<close>

text \<open>The four event handler slots of the recognition object hold one of the four
  functions that \<open>onMount\<close> assigns, or nothing (\<open>null\<close>).\<close>

datatype handler =
  HandleRecognitionResult
| HandleRecognitionError
| OnStartClosure
| OnEndClosure

record speech_recognition =
  continuous :: bool
  interimResults :: bool
  lang :: string
  maxAlternatives :: nat
  onresult :: "handler option"
  onerror :: "handler option"
  onstart :: "handler option"
  onend :: "handler option"

datatype capability_call = Start | Stop

record page_state =
  recognition :: "speech_recognition option"
  interimTranscript :: string
  finalTranscript :: string
  isRecording :: bool
  isButtonDisabled :: bool
  errorMessage :: string
  calls :: "capability_call list"
  console :: "string list"

text \<open>The declarations of lines 4 to 9, with nothing called and nothing logged yet.\<close>

definition initial_state :: page_state where
  "initial_state =
     \<lparr>recognition = None, interimTranscript = [], finalTranscript = [],
      isRecording = False, isButtonDisabled = False, errorMessage = [],
      calls = [], console = []\<rparr>"

text \<open>A \<open>SpeechRecognitionEvent\<close>: \<open>results\<close> is the list of results of the session so far,
  each a list of alternatives with a flag, and \<open>resultIndex\<close> the first index this event
  reports.\<close>

record speech_recognition_alternative =
  transcript :: string

record speech_recognition_result =
  alternatives :: "speech_recognition_alternative list"
  isFinal :: bool

record speech_recognition_event =
  resultIndex :: nat
  results :: "speech_recognition_result list"

record speech_recognition_error_event =
  error :: string

datatype js_error = TypeError

subsection \<open>handleRecognitionResult\<close>

text \<open>
  The loop of lines 55 to 62, from index \<open>i\<close>, with the module variable
  \<open>finalTranscript\<close> and the local \<open>interim\<close> as accumulators. Reading
  \<open>event.results[i][0].transcript\<close> of a result without alternatives is a property
  access on \<open>undefined\<close>: the loop stops there with a TypeError, and what was appended
  to \<open>finalTranscript\<close> before stays appended.
\<close>

function result_loop ::
  "speech_recognition_result list \<Rightarrow> nat \<Rightarrow> string \<Rightarrow> string \<Rightarrow> js_error option \<times> string \<times> string"
where
  "result_loop rs i final interim =
     (if i < length rs then
        (case alternatives (rs ! i) of
           [] \<Rightarrow> (Some TypeError, final, interim)
         | a # _ \<Rightarrow>
             (let tr = transcript a in
              if isFinal (rs ! i) then result_loop rs (i + 1) (final @ tr) interim
              else result_loop rs (i + 1) final (interim @ tr)))
      else (None, final, interim))"
  by pat_completeness auto
termination
  by (relation "measure (\<lambda>(rs, i, final, interim). length rs - i)") auto

declare result_loop.simps [simp del]

text \<open>The handler returns the exception that ended it, if any, and the state it leaves.
  Line 63 is reached only when the loop ends normally.\<close>

definition handleRecognitionResult ::
  "speech_recognition_event \<Rightarrow> page_state \<Rightarrow> js_error option \<times> page_state"
where
  "handleRecognitionResult event s =
     (case result_loop (results event) (resultIndex event) (finalTranscript s) [] of
        (None, final, interim) \<Rightarrow>
          (None, s\<lparr>finalTranscript := final, interimTranscript := interim\<rparr>)
      | (Some e, final, interim) \<Rightarrow>
          (Some e, s\<lparr>finalTranscript := final\<rparr>))"

subsection \<open>Chunks of an event\<close>

text \<open>The chunks an event delivers are its results from \<open>resultIndex\<close> on; the text of a
  chunk is the transcript of its first alternative.\<close>

definition chunk_indices :: "speech_recognition_event \<Rightarrow> nat list" where
  "chunk_indices event = [resultIndex event ..< length (results event)]"

definition chunk_text :: "speech_recognition_result \<Rightarrow> string" where
  "chunk_text r = transcript (hd (alternatives r))"

definition has_alternative :: "speech_recognition_result \<Rightarrow> bool" where
  "has_alternative r = (alternatives r \<noteq> [])"

definition well_formed :: "speech_recognition_event \<Rightarrow> bool" where
  "well_formed event =
     list_all (\<lambda>i. has_alternative (results event ! i)) (chunk_indices event)"

definition interim_text :: "speech_recognition_event \<Rightarrow> string" where
  "interim_text event =
     concat (map (\<lambda>i. chunk_text (results event ! i))
       (filter (\<lambda>i. \<not> isFinal (results event ! i)) (chunk_indices event)))"

definition final_text :: "speech_recognition_event \<Rightarrow> string" where
  "final_text event =
     concat (map (\<lambda>i. chunk_text (results event ! i))
       (filter (\<lambda>i. isFinal (results event ! i)) (chunk_indices event)))"

definition final_chunks :: "speech_recognition_event \<Rightarrow> (nat \<times> string) list" where
  "final_chunks event =
     map (\<lambda>i. (i, chunk_text (results event ! i)))
       (filter (\<lambda>i. isFinal (results event ! i)) (chunk_indices event))"

text \<open>The final chunks of a sequence of events, in the order of delivery.\<close>

definition all_final_chunks :: "speech_recognition_event list \<Rightarrow> (nat \<times> string) list" where
  "all_final_chunks events = concat (map final_chunks events)"

text \<open>A sequence of events delivered to the handler one after the other. An exception
  ends the handler it is thrown in, not the page: the next event finds the state the
  handler left.\<close>

definition process_batches :: "speech_recognition_event list \<Rightarrow> page_state \<Rightarrow> page_state" where
  "process_batches events s = fold (\<lambda>event s. snd (handleRecognitionResult event s)) events s"

subsection \<open>handleRecognitionError\<close>

text \<open>The two messages of lines 69 and 71, as UTF-8 bytes.\<close>

definition no_speech_message :: string where
  "no_speech_message =
     [CHR 0xE9, CHR 0x9F, CHR 0xB3, CHR 0xE5, CHR 0xA3, CHR 0xB0,
      CHR 0xE3, CHR 0x81, CHR 0x8C, CHR 0xE6, CHR 0xA4, CHR 0x9C,
      CHR 0xE5, CHR 0x87, CHR 0xBA, CHR 0xE3, CHR 0x81, CHR 0x95,
      CHR 0xE3, CHR 0x82, CHR 0x8C, CHR 0xE3, CHR 0x81, CHR 0xBE,
      CHR 0xE3, CHR 0x81, CHR 0x9B, CHR 0xE3, CHR 0x82, CHR 0x93,
      CHR 0xE3, CHR 0x81, CHR 0xA7, CHR 0xE3, CHR 0x81, CHR 0x97,
      CHR 0xE3, CHR 0x81, CHR 0x9F, CHR 0xE3, CHR 0x80, CHR 0x82,
      CHR 0xE3, CHR 0x82, CHR 0x82, CHR 0xE3, CHR 0x81, CHR 0x86,
      CHR 0xE4, CHR 0xB8, CHR 0x80, CHR 0xE5, CHR 0xBA, CHR 0xA6,
      CHR 0xE3, CHR 0x81, CHR 0x8A, CHR 0xE8, CHR 0xA9, CHR 0xA6,
      CHR 0xE3, CHR 0x81, CHR 0x97, CHR 0xE3, CHR 0x81, CHR 0x8F,
      CHR 0xE3, CHR 0x81, CHR 0xA0, CHR 0xE3, CHR 0x81, CHR 0x95,
      CHR 0xE3, CHR 0x81, CHR 0x84, CHR 0xE3, CHR 0x80, CHR 0x82]"

definition error_message_prefix :: string where
  "error_message_prefix =
     [CHR 0xE3, CHR 0x82, CHR 0xA8, CHR 0xE3, CHR 0x83, CHR 0xA9,
      CHR 0xE3, CHR 0x83, CHR 0xBC, CHR 0xE3, CHR 0x81, CHR 0x8C,
      CHR 0xE7, CHR 0x99, CHR 0xBA, CHR 0xE7, CHR 0x94, CHR 0x9F,
      CHR 0xE3, CHR 0x81, CHR 0x97, CHR 0xE3, CHR 0x81, CHR 0xBE,
      CHR 0xE3, CHR 0x81, CHR 0x97, CHR 0xE3, CHR 0x81, CHR 0x9F,
      CHR '':'', CHR '' '']"

definition handleRecognitionError :: "speech_recognition_error_event \<Rightarrow> page_state \<Rightarrow> page_state" where
  "handleRecognitionError event s =
     (let s1 = s\<lparr>console := console s @ [''Error: '' @ error event]\<rparr>;
          s2 = (if error event = ''no-speech''
                then s1\<lparr>errorMessage := no_speech_message\<rparr>
                else s1\<lparr>errorMessage := error_message_prefix @ error event\<rparr>)
      in s2\<lparr>isRecording := False, isButtonDisabled := False\<rparr>)"

subsection \<open>Starting and stopping\<close>

text \<open>\<open>recognition?.start()\<close> and \<open>recognition?.stop()\<close>: nothing happens on \<open>null\<close>,
  otherwise the call is made. Both are the last statement of their function, so a call
  that the browser answers with an exception leaves the same page state.\<close>

definition recognition_start :: "page_state \<Rightarrow> page_state" where
  "recognition_start s =
     (case recognition s of None \<Rightarrow> s | Some r \<Rightarrow> s\<lparr>calls := calls s @ [Start]\<rparr>)"

definition recognition_stop :: "page_state \<Rightarrow> page_state" where
  "recognition_stop s =
     (case recognition s of None \<Rightarrow> s | Some r \<Rightarrow> s\<lparr>calls := calls s @ [Stop]\<rparr>)"

definition startRecognition :: "page_state \<Rightarrow> page_state" where
  "startRecognition s =
     recognition_start
       (s\<lparr>interimTranscript := [], finalTranscript := [], errorMessage := [],
          isButtonDisabled := True\<rparr>)"

definition stopRecognition :: "page_state \<Rightarrow> page_state" where
  "stopRecognition s = recognition_stop (s\<lparr>isButtonDisabled := True\<rparr>)"

definition handleButtonClick :: "page_state \<Rightarrow> page_state" where
  "handleButtonClick s = (if isRecording s then stopRecognition s else startRecognition s)"

subsection \<open>Mounting\<close>

text \<open>What the page reads of the host: whether \<open>window.SpeechRecognition\<close> and
  \<open>window.webkitSpeechRecognition\<close> are there.\<close>

record window =
  has_SpeechRecognition :: bool
  has_webkitSpeechRecognition :: bool

text \<open>The object a constructor call returns, before the page configures it.\<close>

definition new_SpeechRecognition :: speech_recognition where
  "new_SpeechRecognition =
     \<lparr>continuous = False, interimResults = False, lang = [], maxAlternatives = 1,
      onresult = None, onerror = None, onstart = None, onend = None\<rparr>"

definition createSpeechRecognition :: "window \<Rightarrow> speech_recognition option" where
  "createSpeechRecognition w =
     (if \<not> (has_SpeechRecognition w \<or> has_webkitSpeechRecognition w) then None
      else Some (new_SpeechRecognition
        \<lparr>continuous := True, interimResults := True, lang := ''ja-JP'',
         maxAlternatives := 1\<rparr>))"

definition onMount :: "window \<Rightarrow> page_state \<Rightarrow> page_state" where
  "onMount w s =
     (let s1 = s\<lparr>recognition := createSpeechRecognition w\<rparr> in
      case recognition s1 of
        None \<Rightarrow>
          s1\<lparr>console := console s1 @
               [''SpeechRecognition API is not supported in this browser.'']\<rparr>
      | Some r \<Rightarrow>
          s1\<lparr>recognition := Some (r
               \<lparr>onresult := Some HandleRecognitionResult,
                onerror := Some HandleRecognitionError,
                onstart := Some OnStartClosure,
                onend := Some OnEndClosure\<rparr>)\<rparr>)"

subsection \<open>The page as a transition system\<close>

text \<open>The recognition object raises four kinds of event. An event reaches the page
  only through the handler in the matching slot of the object the page holds.\<close>

datatype capability_event =
  StartEvent
| EndEvent
| ResultEvent speech_recognition_event
| ErrorEvent speech_recognition_error_event

fun call_handler :: "handler \<Rightarrow> capability_event \<Rightarrow> page_state \<Rightarrow> page_state" where
  "call_handler HandleRecognitionResult (ResultEvent event) s =
     snd (handleRecognitionResult event s)"
| "call_handler HandleRecognitionError (ErrorEvent event) s = handleRecognitionError event s"
| "call_handler OnStartClosure event s = s\<lparr>isRecording := True, isButtonDisabled := False\<rparr>"
| "call_handler OnEndClosure event s = s\<lparr>isRecording := False, isButtonDisabled := False\<rparr>"
| "call_handler h event s = s"

definition slot :: "capability_event \<Rightarrow> speech_recognition \<Rightarrow> handler option" where
  "slot event r =
     (case event of
        StartEvent \<Rightarrow> onstart r
      | EndEvent \<Rightarrow> onend r
      | ResultEvent e \<Rightarrow> onresult r
      | ErrorEvent e \<Rightarrow> onerror r)"

definition dispatch :: "capability_event \<Rightarrow> page_state \<Rightarrow> page_state" where
  "dispatch event s =
     (case recognition s of
        None \<Rightarrow> s
      | Some r \<Rightarrow> (case slot event r of None \<Rightarrow> s | Some h \<Rightarrow> call_handler h event s))"

text \<open>The button of line 101 carries \<open>disabled={isButtonDisabled}\<close>: a click reaches
  \<open>handleButtonClick\<close> only while the flag is off.\<close>

datatype input = Click | Capability capability_event

fun step :: "input \<Rightarrow> page_state \<Rightarrow> page_state" where
  "step Click s = (if isButtonDisabled s then s else handleButtonClick s)"
| "step (Capability event) s = dispatch event s"

definition run :: "input list \<Rightarrow> page_state \<Rightarrow> page_state" where
  "run inputs s = fold step inputs s"

text \<open>What holds of the page on a host without the API, from mounting on.\<close>

definition silent :: "page_state \<Rightarrow> bool" where
  "silent s =
     (recognition s = None \<and> isRecording s = False \<and> errorMessage s = []
      \<and> finalTranscript s = [] \<and> interimTranscript s = [] \<and> calls s = []
      \<and> console s = [''SpeechRecognition API is not supported in this browser.''])"

subsection \<open>Example inputs\<close>

text \<open>A result with a single alternative, as the browser delivers it under
  \<open>maxAlternatives = 1\<close>.\<close>

definition chunk :: "string \<Rightarrow> bool \<Rightarrow> speech_recognition_result" where
  "chunk t f = \<lparr>alternatives = [\<lparr>transcript = t\<rparr>], isFinal = f\<rparr>"

text \<open>The two texts of the scenario of the specification, as UTF-8 bytes.\<close>

definition kon :: string where
  "kon =
     [CHR 0xE3, CHR 0x81, CHR 0x93, CHR 0xE3, CHR 0x82, CHR 0x93]"

definition konnichiwa :: string where
  "konnichiwa =
     [CHR 0xE3, CHR 0x81, CHR 0x93, CHR 0xE3, CHR 0x82, CHR 0x93,
      CHR 0xE3, CHR 0x81, CHR 0xAB, CHR 0xE3, CHR 0x81, CHR 0xA1,
      CHR 0xE3, CHR 0x81, CHR 0xAF]"

definition batch_interim :: speech_recognition_event where
  "batch_interim = \<lparr>resultIndex = 0, results = [chunk kon False]\<rparr>"

definition batch_final :: speech_recognition_event where
  "batch_final = \<lparr>resultIndex = 0, results = [chunk konnichiwa True]\<rparr>"

definition batch_a :: speech_recognition_event where
  "batch_a = \<lparr>resultIndex = 0, results = [chunk ''ab'' True, chunk ''c'' False]\<rparr>"

definition batch_b :: speech_recognition_event where
  "batch_b = \<lparr>resultIndex = 1, results = [chunk ''ab'' True, chunk ''cd'' True]\<rparr>"

text \<open>A host with the recognition API, the page mounted on it, and the page in the
  middle of a session: the button pressed, the start confirmed, one event received.\<close>

definition supported_window :: window where
  "supported_window = \<lparr>has_SpeechRecognition = False, has_webkitSpeechRecognition = True\<rparr>"

definition unsupported_window :: window where
  "unsupported_window = \<lparr>has_SpeechRecognition = False, has_webkitSpeechRecognition = False\<rparr>"

definition mounted :: page_state where
  "mounted = onMount supported_window initial_state"

definition recording :: page_state where
  "recording =
     run [Click, Capability StartEvent, Capability (ResultEvent batch_a)] mounted"

section \<open>Properties\<close>

subsection \<open>The loop\<close>

lemma result_loop_frame:
  "\<exists>add. fst (snd (result_loop rs i final interim)) = final @ add"
proof (induction rs i final interim rule: result_loop.induct)
  case (1 rs i final interim)
  show ?case
  proof (cases "i < length rs")
    case False
    then show ?thesis by (simp add: result_loop.simps [of rs i])
  next
    case True
    show ?thesis
    proof (cases "alternatives (rs ! i)")
      case Nil
      with True show ?thesis by (simp add: result_loop.simps [of rs i])
    next
      case (Cons a as)
      show ?thesis
      proof (cases "isFinal (rs ! i)")
        case fin: True
        from "1.IH"(1) [OF True Cons refl fin]
        obtain add where
          "fst (snd (result_loop rs (i + 1) (final @ transcript a) interim))
             = (final @ transcript a) @ add"
          by blast
        with True Cons fin show ?thesis
          by (simp add: result_loop.simps [of rs i])
      next
        case nfin: False
        from "1.IH"(2) [OF True Cons refl nfin]
        obtain add where
          "fst (snd (result_loop rs (i + 1) final (interim @ transcript a))) = final @ add"
          by blast
        with True Cons nfin show ?thesis
          by (simp add: result_loop.simps [of rs i])
      qed
    qed
  qed
qed

lemma result_loop_well_formed:
  "list_all (\<lambda>k. has_alternative (rs ! k)) [i ..< length rs] \<Longrightarrow>
   result_loop rs i final interim =
     (None,
      final @ concat (map (\<lambda>k. chunk_text (rs ! k))
                 (filter (\<lambda>k. isFinal (rs ! k)) [i ..< length rs])),
      interim @ concat (map (\<lambda>k. chunk_text (rs ! k))
                 (filter (\<lambda>k. \<not> isFinal (rs ! k)) [i ..< length rs])))"
proof (induction rs i final interim rule: result_loop.induct)
  case (1 rs i final interim)
  show ?case
  proof (cases "i < length rs")
    case False
    then show ?thesis by (simp add: result_loop.simps [of rs i])
  next
    case True
    then have upt: "[i ..< length rs] = i # [i + 1 ..< length rs]"
      by (simp add: upt_conv_Cons)
    from "1.prems" upt have here: "has_alternative (rs ! i)"
      and rest: "list_all (\<lambda>k. has_alternative (rs ! k)) [i + 1 ..< length rs]"
      by simp_all
    from here obtain a as where Cons: "alternatives (rs ! i) = a # as"
      by (auto simp: has_alternative_def neq_Nil_conv)
    then have ctext: "chunk_text (rs ! i) = transcript a"
      by (simp add: chunk_text_def)
    show ?thesis
    proof (cases "isFinal (rs ! i)")
      case fin: True
      from "1.IH"(1) [OF True Cons refl fin rest] True Cons fin ctext show ?thesis
        by (simp add: result_loop.simps [of rs i] upt)
    next
      case nfin: False
      from "1.IH"(2) [OF True Cons refl nfin rest] True Cons nfin ctext show ?thesis
        by (simp add: result_loop.simps [of rs i] upt)
    qed
  qed
qed

lemma handleRecognitionResult_well_formed:
  assumes "well_formed event"
  shows "handleRecognitionResult event s =
    (None, s\<lparr>finalTranscript := finalTranscript s @ final_text event,
             interimTranscript := interim_text event\<rparr>)"
  using assms
  by (simp add: handleRecognitionResult_def well_formed_def chunk_indices_def
      result_loop_well_formed final_text_def interim_text_def)

lemma handleRecognitionResult_final_grows:
  "\<exists>add. finalTranscript (snd (handleRecognitionResult event s)) = finalTranscript s @ add"
proof -
  obtain e final interim where
    r: "result_loop (results event) (resultIndex event) (finalTranscript s) [] = (e, final, interim)"
    by (metis prod_cases3)
  from result_loop_frame [of "results event" "resultIndex event" "finalTranscript s" "[]"] r
  obtain add where "final = finalTranscript s @ add" by auto
  with r show ?thesis
    by (cases e) (simp_all add: handleRecognitionResult_def)
qed

lemma process_batches_final:
  "list_all well_formed events \<Longrightarrow>
   finalTranscript (process_batches events s)
     = finalTranscript s @ concat (map final_text events)"
proof (induction events arbitrary: s)
  case Nil
  show ?case by (simp add: process_batches_def)
next
  case (Cons event events)
  from Cons.prems have wf: "well_formed event" and rest: "list_all well_formed events"
    by simp_all
  have "process_batches (event # events) s
      = process_batches events (snd (handleRecognitionResult event s))"
    by (simp add: process_batches_def)
  with Cons.IH [OF rest, of "snd (handleRecognitionResult event s)"] wf
  show ?case by (simp add: handleRecognitionResult_well_formed)
qed

lemma final_chunks_text: "concat (map snd (final_chunks event)) = final_text event"
  by (simp add: final_chunks_def final_text_def comp_def)

lemma all_final_chunks_text:
  "concat (map snd (all_final_chunks events)) = concat (map final_text events)"
  by (induction events) (simp_all add: all_final_chunks_def final_chunks_text)

subsection \<open>The example states\<close>

lemma mounted_fields:
  "recognition mounted \<noteq> None
   \<and> \<not> isRecording mounted \<and> \<not> isButtonDisabled mounted
   \<and> finalTranscript mounted = [] \<and> interimTranscript mounted = []
   \<and> errorMessage mounted = [] \<and> calls mounted = [] \<and> console mounted = []"
  by (simp add: mounted_def onMount_def createSpeechRecognition_def supported_window_def
      initial_state_def new_SpeechRecognition_def)

lemma recording_fields:
  "recognition recording \<noteq> None
   \<and> isRecording recording \<and> \<not> isButtonDisabled recording
   \<and> finalTranscript recording = ''ab'' \<and> interimTranscript recording = ''c''
   \<and> errorMessage recording = [] \<and> calls recording = [Start]"
  by (simp add: recording_def run_def mounted_def onMount_def createSpeechRecognition_def
      supported_window_def initial_state_def new_SpeechRecognition_def
      handleButtonClick_def startRecognition_def recognition_start_def
      dispatch_def slot_def handleRecognitionResult_def result_loop.simps
      batch_a_def chunk_def)

subsection \<open>A page without a recognition object\<close>

lemma dispatch_without_recognition: "recognition s = None \<Longrightarrow> dispatch event s = s"
  by (simp add: dispatch_def)

lemma run_disabled_without_recognition:
  "recognition s = None \<Longrightarrow> isButtonDisabled s \<Longrightarrow> run inputs s = s"
proof (induction inputs)
  case Nil
  show ?case by (simp add: run_def)
next
  case (Cons i inputs)
  from Cons.prems have "step i s = s"
    by (cases i) (simp_all add: dispatch_without_recognition)
  with Cons show ?case by (simp add: run_def)
qed

lemma silent_onMount:
  "createSpeechRecognition w = None \<Longrightarrow> silent (onMount w initial_state)"
  by (simp add: silent_def onMount_def initial_state_def)

lemma silent_startRecognition: "silent s \<Longrightarrow> silent (startRecognition s)"
  by (simp add: silent_def startRecognition_def recognition_start_def)

lemma silent_step: "silent s \<Longrightarrow> silent (step i s)"
proof (cases i)
  case Click
  assume "silent s"
  then show ?thesis
    using silent_startRecognition [of s]
    by (simp add: Click handleButtonClick_def silent_def)
next
  case (Capability event)
  assume "silent s"
  then show ?thesis
    by (simp add: Capability dispatch_without_recognition silent_def)
qed

lemma silent_run: "silent s \<Longrightarrow> silent (run inputs s)"
proof (induction inputs arbitrary: s)
  case Nil
  then show ?case by (simp add: run_def)
next
  case (Cons i inputs)
  from Cons.IH [OF silent_step [OF Cons.prems, of i]] show ?case
    by (simp add: run_def)
qed

lemma unsupported_window_None: "createSpeechRecognition unsupported_window = None"
  by (simp add: createSpeechRecognition_def unsupported_window_def)

subsection \<open>Calls made on the capability\<close>

text \<open>No handler calls the capability: only a button press does.\<close>

lemma call_handler_calls: "calls (call_handler h event s) = calls s"
proof (cases h)
  case HandleRecognitionResult
  then show ?thesis
    by (cases event)
      (simp_all add: handleRecognitionResult_def split: prod.splits option.splits)
next
  case HandleRecognitionError
  then show ?thesis
    by (cases event) (simp_all add: handleRecognitionError_def Let_def)
next
  case OnStartClosure
  then show ?thesis by simp
next
  case OnEndClosure
  then show ?thesis by simp
qed

lemma dispatch_calls: "calls (dispatch event s) = calls s"
  by (simp add: dispatch_def call_handler_calls split: option.splits)

subsection \<open>Claims about the aggregator\<close>

text \<open>
  C1. For a single event whose delivered chunks all carry text, the handler returns
  normally and leaves in \<open>interimTranscript\<close> exactly the texts of the event's non-final
  chunks, concatenated by ascending index from \<open>resultIndex\<close>. The value does not depend
  on \<open>interimTranscript\<close> before the call, and it is empty when the event has no
  non-final chunk.
\<close>

theorem C1_interim_replaced:
  assumes "well_formed event"
  shows "fst (handleRecognitionResult event s) = None
    \<and> interimTranscript (snd (handleRecognitionResult event s)) = interim_text event
    \<and> interimTranscript (snd (handleRecognitionResult event (s\<lparr>interimTranscript := before\<rparr>)))
        = interim_text event
    \<and> (list_all (\<lambda>i. isFinal (results event ! i)) (chunk_indices event) \<longrightarrow>
         interimTranscript (snd (handleRecognitionResult event s)) = [])"
proof -
  have "list_all (\<lambda>i. isFinal (results event ! i)) (chunk_indices event) \<Longrightarrow>
        filter (\<lambda>i. \<not> isFinal (results event ! i)) (chunk_indices event) = []"
    by (simp add: list_all_iff filter_empty_conv)
  then have "list_all (\<lambda>i. isFinal (results event ! i)) (chunk_indices event) \<Longrightarrow>
        interim_text event = []"
    by (simp add: interim_text_def)
  with assms show ?thesis
    by (simp add: handleRecognitionResult_well_formed)
qed

theorem C1_interim_replaced_witness:
  "well_formed batch_interim
   \<and> interimTranscript (snd (handleRecognitionResult batch_interim
        (initial_state\<lparr>interimTranscript := ''old''\<rparr>))) = kon
   \<and> well_formed batch_final
   \<and> list_all (\<lambda>i. isFinal (results batch_final ! i)) (chunk_indices batch_final)
   \<and> interimTranscript (snd (handleRecognitionResult batch_final
        (snd (handleRecognitionResult batch_interim initial_state)))) = []"
proof -
  have wi: "well_formed batch_interim"
    by (simp add: well_formed_def chunk_indices_def has_alternative_def batch_interim_def
        chunk_def)
  have wf: "well_formed batch_final"
    by (simp add: well_formed_def chunk_indices_def has_alternative_def batch_final_def
        chunk_def)
  have fin: "list_all (\<lambda>i. isFinal (results batch_final ! i)) (chunk_indices batch_final)"
    by (simp add: chunk_indices_def batch_final_def chunk_def)
  have it: "interim_text batch_interim = kon"
    by (simp add: interim_text_def chunk_indices_def chunk_text_def batch_interim_def
        chunk_def)
  from C1_interim_replaced [OF wi, of "initial_state" "''old''"]
  have a: "interimTranscript (snd (handleRecognitionResult batch_interim
        (initial_state\<lparr>interimTranscript := ''old''\<rparr>))) = interim_text batch_interim"
    by blast
  from C1_interim_replaced
    [OF wf, of "snd (handleRecognitionResult batch_interim initial_state)"] fin
  have b: "interimTranscript (snd (handleRecognitionResult batch_final
        (snd (handleRecognitionResult batch_interim initial_state)))) = []"
    by blast
  from a b wi wf fin it show ?thesis by simp
qed

text \<open>
  C2, as the code has it. The handler keeps no record of the indices it has seen
  final: for an event whose delivered chunks all carry text it appends to
  \<open>finalTranscript\<close> the text of every final chunk from \<open>resultIndex\<close> on, whatever was
  appended before. An event delivered twice has its final chunks' texts appended twice.
\<close>

theorem C2_final_appended_again:
  assumes "well_formed event"
  shows "finalTranscript (snd (handleRecognitionResult event s))
      = finalTranscript s @ final_text event
    \<and> finalTranscript (snd (handleRecognitionResult event
         (snd (handleRecognitionResult event s))))
      = finalTranscript s @ final_text event @ final_text event"
  using assms by (simp add: handleRecognitionResult_well_formed)

theorem C2_final_appended_again_witness:
  "well_formed batch_final
   \<and> finalTranscript (snd (handleRecognitionResult batch_final initial_state)) = konnichiwa
   \<and> finalTranscript (snd (handleRecognitionResult batch_final
        (snd (handleRecognitionResult batch_final initial_state))))
      = konnichiwa @ konnichiwa"
proof -
  have wf: "well_formed batch_final"
    by (simp add: well_formed_def chunk_indices_def has_alternative_def batch_final_def
        chunk_def)
  have ft: "final_text batch_final = konnichiwa"
    by (simp add: final_text_def chunk_indices_def chunk_text_def batch_final_def chunk_def)
  have init: "finalTranscript initial_state = []"
    by (simp add: initial_state_def)
  from C2_final_appended_again [OF wf, of initial_state] wf ft init
  show ?thesis by simp
qed

text \<open>
  C2 as stated fails: chunk 0 of \<open>batch_final\<close> is final, and when the event is
  delivered a second time, with \<open>resultIndex = 0\<close> not above the finalized index 0, the
  text of chunk 0 is appended to \<open>finalTranscript\<close> again.
\<close>

theorem C2_redelivery_counterexample:
  "isFinal (results batch_final ! 0)
   \<and> resultIndex batch_final \<le> 0
   \<and> finalTranscript (snd (handleRecognitionResult batch_final initial_state)) = konnichiwa
   \<and> finalTranscript (snd (handleRecognitionResult batch_final
        (snd (handleRecognitionResult batch_final initial_state))))
      = konnichiwa @ konnichiwa
   \<and> finalTranscript (snd (handleRecognitionResult batch_final
        (snd (handleRecognitionResult batch_final initial_state))))
      \<noteq> finalTranscript (snd (handleRecognitionResult batch_final initial_state))"
  by (simp add: handleRecognitionResult_def result_loop.simps batch_final_def chunk_def
      initial_state_def konnichiwa_def)

text \<open>
  C3. From a state with empty \<open>finalTranscript\<close>, for events whose delivered chunks all
  carry text and whose final chunks have strictly increasing indices over the whole
  sequence, \<open>finalTranscript\<close> after the sequence is the texts of all final chunks
  concatenated in index order. And one call of the handler, on any event and in any
  state, only appends to \<open>finalTranscript\<close>.
\<close>

theorem C3_final_ordered_append_only:
  assumes "finalTranscript s = []"
    and "list_all well_formed events"
    and "sorted_wrt (<) (map fst (all_final_chunks events))"
  shows "finalTranscript (process_batches events s)
      = concat (map snd (sort_key fst (all_final_chunks events)))
    \<and> prefix (finalTranscript (process_batches events s))
        (finalTranscript (process_batches (events @ [next_event]) s))
    \<and> prefix (finalTranscript s') (finalTranscript (snd (handleRecognitionResult event' s')))
    \<and> length (finalTranscript s')
        \<le> length (finalTranscript (snd (handleRecognitionResult event' s')))"
proof -
  from assms(3) have "sorted (map fst (all_final_chunks events))"
    by (rule strict_sorted_imp_sorted)
  then have "sort_key fst (all_final_chunks events) = all_final_chunks events"
    by (rule sort_key_id_if_sorted)
  with assms(1, 2) have first:
    "finalTranscript (process_batches events s)
      = concat (map snd (sort_key fst (all_final_chunks events)))"
    by (simp add: process_batches_final all_final_chunks_text)
  have one: "prefix (finalTranscript t) (finalTranscript (snd (handleRecognitionResult e t)))"
    for e t
    using handleRecognitionResult_final_grows [of e t] by (auto simp: prefix_def)
  have "process_batches (events @ [next_event]) s
      = snd (handleRecognitionResult next_event (process_batches events s))"
    by (simp add: process_batches_def)
  with one [of "process_batches events s" next_event] have second:
    "prefix (finalTranscript (process_batches events s))
        (finalTranscript (process_batches (events @ [next_event]) s))"
    by simp
  from first second one [of s' event'] prefix_length_le [OF one [of s' event']]
  show ?thesis by simp
qed

theorem C3_final_ordered_append_only_witness:
  "finalTranscript initial_state = []
   \<and> list_all well_formed [batch_a, batch_b]
   \<and> sorted_wrt (<) (map fst (all_final_chunks [batch_a, batch_b]))
   \<and> map fst (all_final_chunks [batch_a, batch_b]) = [0, 1]
   \<and> finalTranscript (process_batches [batch_a, batch_b] initial_state) = ''abcd''"
proof -
  have init: "finalTranscript initial_state = []"
    by (simp add: initial_state_def)
  have wf: "list_all well_formed [batch_a, batch_b]"
    by (simp add: well_formed_def chunk_indices_def has_alternative_def batch_a_def
        batch_b_def chunk_def upt_rec)
  have chunks: "all_final_chunks [batch_a, batch_b] = [(0, ''ab''), (1, ''cd'')]"
    by (simp add: all_final_chunks_def final_chunks_def chunk_indices_def chunk_text_def
        batch_a_def batch_b_def chunk_def upt_rec)
  then have srt: "sorted_wrt (<) (map fst (all_final_chunks [batch_a, batch_b]))"
    by simp
  from C3_final_ordered_append_only [OF init wf srt]
  have "finalTranscript (process_batches [batch_a, batch_b] initial_state)
      = concat (map snd (sort_key fst (all_final_chunks [batch_a, batch_b])))"
    by blast
  with chunks have "finalTranscript (process_batches [batch_a, batch_b] initial_state) = ''abcd''"
    by simp
  with init wf srt chunks show ?thesis by simp
qed

text \<open>
  C9. Whatever the event, and whether the handler returns or throws, it leaves
  \<open>errorMessage\<close>, \<open>isRecording\<close> and \<open>isButtonDisabled\<close> as they were; the recognition
  object, the calls made on it and the console are untouched as well.
\<close>

theorem C9_result_frame:
  "errorMessage (snd (handleRecognitionResult event s)) = errorMessage s
   \<and> isRecording (snd (handleRecognitionResult event s)) = isRecording s
   \<and> isButtonDisabled (snd (handleRecognitionResult event s)) = isButtonDisabled s
   \<and> recognition (snd (handleRecognitionResult event s)) = recognition s
   \<and> calls (snd (handleRecognitionResult event s)) = calls s
   \<and> console (snd (handleRecognitionResult event s)) = console s"
  by (simp add: handleRecognitionResult_def split: prod.splits option.splits)

subsection \<open>Claims about the session\<close>

text \<open>
  C4, as the code has it. An error event ends the session: \<open>isRecording\<close> becomes
  false and the button is enabled. \<open>errorMessage\<close> is set, to the dedicated message for
  \<open>no-speech\<close> and otherwise to the general prefix followed by the error code as
  received; the two never coincide and neither is empty. \<open>finalTranscript\<close> is kept,
  and so is \<open>interimTranscript\<close>: the handler does not clear it.
\<close>

theorem C4_error_ends_session:
  "isRecording (handleRecognitionError event s) = False
   \<and> isButtonDisabled (handleRecognitionError event s) = False
   \<and> errorMessage (handleRecognitionError event s)
       = (if error event = ''no-speech'' then no_speech_message
          else error_message_prefix @ error event)
   \<and> errorMessage (handleRecognitionError event s) \<noteq> []
   \<and> no_speech_message \<noteq> error_message_prefix @ detail
   \<and> finalTranscript (handleRecognitionError event s) = finalTranscript s
   \<and> interimTranscript (handleRecognitionError event s) = interimTranscript s"
  by (simp add: handleRecognitionError_def Let_def no_speech_message_def
      error_message_prefix_def)

text \<open>
  C4 as stated fails on the interim text: in the middle of a session with
  \<open>finalTranscript = ''ab''\<close> and \<open>interimTranscript = ''c''\<close>, a \<open>no-speech\<close> error
  leaves \<open>interimTranscript = ''c''\<close>.
\<close>

theorem C4_interim_kept_counterexample:
  "isRecording recording
   \<and> finalTranscript recording = ''ab''
   \<and> interimTranscript recording = ''c''
   \<and> dispatch (ErrorEvent \<lparr>error = ''no-speech''\<rparr>) recording
       = handleRecognitionError \<lparr>error = ''no-speech''\<rparr> recording
   \<and> isRecording (handleRecognitionError \<lparr>error = ''no-speech''\<rparr> recording) = False
   \<and> finalTranscript (handleRecognitionError \<lparr>error = ''no-speech''\<rparr> recording) = ''ab''
   \<and> interimTranscript (handleRecognitionError \<lparr>error = ''no-speech''\<rparr> recording) = ''c''
   \<and> interimTranscript (handleRecognitionError \<lparr>error = ''no-speech''\<rparr> recording) \<noteq> []"
proof -
  have "dispatch (ErrorEvent \<lparr>error = ''no-speech''\<rparr>) recording
       = handleRecognitionError \<lparr>error = ''no-speech''\<rparr> recording"
    by (simp add: recording_def run_def mounted_def onMount_def createSpeechRecognition_def
      supported_window_def initial_state_def new_SpeechRecognition_def
      handleButtonClick_def startRecognition_def recognition_start_def
      dispatch_def slot_def handleRecognitionResult_def result_loop.simps
      batch_a_def chunk_def)
  with recording_fields show ?thesis
    by (simp add: handleRecognitionError_def)
qed

text \<open>
  C5, as the code has it. On a host without the API \<open>onMount\<close> writes one line to the
  console and registers no handler. From then on, through any inputs, a start request
  and any inputs after it: \<open>isRecording\<close> stays false, \<open>errorMessage\<close> stays empty (the
  condition is reported on the console only, once), no call is made on the capability,
  and \<open>finalTranscript\<close> and \<open>interimTranscript\<close> stay empty; a result event changes
  nothing.
\<close>

theorem C5_unsupported_stays_idle:
  assumes "createSpeechRecognition w = None"
  shows "console (onMount w initial_state)
      = [''SpeechRecognition API is not supported in this browser.'']
    \<and> recognition (onMount w initial_state) = None
    \<and> isRecording (run after (startRecognition (run before (onMount w initial_state)))) = False
    \<and> errorMessage (run after (startRecognition (run before (onMount w initial_state)))) = []
    \<and> finalTranscript (run after (startRecognition (run before (onMount w initial_state)))) = []
    \<and> interimTranscript (run after (startRecognition (run before (onMount w initial_state)))) = []
    \<and> calls (run after (startRecognition (run before (onMount w initial_state)))) = []
    \<and> console (run after (startRecognition (run before (onMount w initial_state))))
      = [''SpeechRecognition API is not supported in this browser.'']
    \<and> dispatch (ResultEvent event)
        (run after (startRecognition (run before (onMount w initial_state))))
      = run after (startRecognition (run before (onMount w initial_state)))"
proof -
  from assms have m: "silent (onMount w initial_state)"
    by (rule silent_onMount)
  then have "silent (run after (startRecognition (run before (onMount w initial_state))))"
    by (intro silent_run silent_startRecognition)
  with m show ?thesis
    by (simp add: silent_def dispatch_without_recognition)
qed

theorem C5_unsupported_stays_idle_witness:
  "createSpeechRecognition unsupported_window = None
   \<and> console (onMount unsupported_window initial_state)
      = [''SpeechRecognition API is not supported in this browser.'']
   \<and> isRecording (run [Capability (ResultEvent batch_a), Click]
        (startRecognition (run [] (onMount unsupported_window initial_state)))) = False
   \<and> errorMessage (run [Capability (ResultEvent batch_a), Click]
        (startRecognition (run [] (onMount unsupported_window initial_state)))) = []
   \<and> finalTranscript (run [Capability (ResultEvent batch_a), Click]
        (startRecognition (run [] (onMount unsupported_window initial_state)))) = []"
  using C5_unsupported_stays_idle [OF unsupported_window_None,
      of "[Capability (ResultEvent batch_a), Click]" "[]"]
    unsupported_window_None
  by simp

text \<open>
  C5 as stated fails on the error: on a host without the API, a start request on the
  mounted page leaves \<open>errorMessage\<close> empty, as it was after mounting.
\<close>

theorem C5_no_error_surfaced_counterexample:
  "createSpeechRecognition unsupported_window = None
   \<and> errorMessage (onMount unsupported_window initial_state) = []
   \<and> step Click (onMount unsupported_window initial_state)
       = startRecognition (onMount unsupported_window initial_state)
   \<and> errorMessage (startRecognition (onMount unsupported_window initial_state)) = []"
  by (simp add: createSpeechRecognition_def unsupported_window_def onMount_def
      initial_state_def handleButtonClick_def startRecognition_def recognition_start_def)

text \<open>
  C6. \<open>startRecognition\<close>, in any state, first clears \<open>interimTranscript\<close>,
  \<open>finalTranscript\<close> and \<open>errorMessage\<close> and only then makes the \<open>start()\<close> call: the
  call is made in a state \<open>s1\<close> with the three empty and no call added yet. They are
  empty in the state it returns, and a button press while not recording is this
  function.
\<close>

theorem C6_start_clears:
  "(\<exists>s1. interimTranscript s1 = [] \<and> finalTranscript s1 = [] \<and> errorMessage s1 = []
        \<and> calls s1 = calls s \<and> startRecognition s = recognition_start s1)
   \<and> interimTranscript (startRecognition s) = []
   \<and> finalTranscript (startRecognition s) = []
   \<and> errorMessage (startRecognition s) = []
   \<and> calls (startRecognition s)
       = calls s @ (case recognition s of None \<Rightarrow> [] | Some r \<Rightarrow> [Start])
   \<and> handleButtonClick (s\<lparr>isRecording := False\<rparr>) = startRecognition (s\<lparr>isRecording := False\<rparr>)"
proof -
  let ?s1 = "s\<lparr>interimTranscript := [], finalTranscript := [], errorMessage := [],
          isButtonDisabled := True\<rparr>"
  have "interimTranscript ?s1 = [] \<and> finalTranscript ?s1 = [] \<and> errorMessage ?s1 = []
        \<and> calls ?s1 = calls s \<and> startRecognition s = recognition_start ?s1"
    by (simp add: startRecognition_def)
  then have first: "\<exists>s1. interimTranscript s1 = [] \<and> finalTranscript s1 = []
        \<and> errorMessage s1 = [] \<and> calls s1 = calls s
        \<and> startRecognition s = recognition_start s1"
    by blast
  have rest: "interimTranscript (startRecognition s) = []
   \<and> finalTranscript (startRecognition s) = []
   \<and> errorMessage (startRecognition s) = []
   \<and> calls (startRecognition s)
       = calls s @ (case recognition s of None \<Rightarrow> [] | Some r \<Rightarrow> [Start])"
    by (simp add: startRecognition_def recognition_start_def split: option.splits)
  have click: "handleButtonClick (s\<lparr>isRecording := False\<rparr>)
      = startRecognition (s\<lparr>isRecording := False\<rparr>)"
    by (simp add: handleButtonClick_def)
  from first rest click show ?thesis by blast
qed

text \<open>
  C7. A start request reaches \<open>startRecognition\<close> only through a button press, in the
  else arm of \<open>handleButtonClick\<close>. While a session is under way, that is while
  \<open>isRecording\<close> is true, or while the button is disabled because a \<open>start()\<close> call
  waits for its confirmation, a button press leaves \<open>isRecording\<close>, \<open>finalTranscript\<close>,
  \<open>interimTranscript\<close> and \<open>errorMessage\<close> unchanged, and no input at all, button
  press or capability event, makes a \<open>start()\<close> call.
\<close>

theorem C7_no_start_while_active:
  assumes "isRecording s \<or> isButtonDisabled s"
  shows "isRecording (step Click s) = isRecording s
    \<and> finalTranscript (step Click s) = finalTranscript s
    \<and> interimTranscript (step Click s) = interimTranscript s
    \<and> errorMessage (step Click s) = errorMessage s
    \<and> count_list (calls (step Click s)) Start = count_list (calls s) Start
    \<and> count_list (calls (step i s)) Start = count_list (calls s) Start"
proof -
  have click: "isRecording (step Click s) = isRecording s
    \<and> finalTranscript (step Click s) = finalTranscript s
    \<and> interimTranscript (step Click s) = interimTranscript s
    \<and> errorMessage (step Click s) = errorMessage s
    \<and> count_list (calls (step Click s)) Start = count_list (calls s) Start"
  proof (cases "isButtonDisabled s")
    case True
    then show ?thesis by simp
  next
    case False
    with assms have "isRecording s" by simp
    with False show ?thesis
      by (simp add: handleButtonClick_def stopRecognition_def recognition_stop_def
          split: option.splits)
  qed
  have "count_list (calls (step i s)) Start = count_list (calls s) Start"
  proof (cases i)
    case Click
    with click show ?thesis by simp
  next
    case (Capability event)
    then show ?thesis by (simp add: dispatch_calls)
  qed
  with click show ?thesis by simp
qed

theorem C7_no_start_while_active_witness:
  "(isRecording recording \<or> isButtonDisabled recording)
   \<and> finalTranscript (step Click recording) = ''ab''
   \<and> interimTranscript (step Click recording) = ''c''
   \<and> errorMessage (step Click recording) = []
   \<and> count_list (calls (step Click recording)) Start = 1
   \<and> (isRecording (step Click mounted) \<or> isButtonDisabled (step Click mounted))
   \<and> calls (step Click mounted) = [Start]
   \<and> count_list (calls (step Click (step Click mounted))) Start = 1"
proof -
  from recording_fields have r: "isRecording recording \<or> isButtonDisabled recording"
    by simp
  have p: "isButtonDisabled (step Click mounted) \<and> calls (step Click mounted) = [Start]"
    using mounted_fields
    by (auto simp: handleButtonClick_def startRecognition_def recognition_start_def)
  then have q: "isRecording (step Click mounted) \<or> isButtonDisabled (step Click mounted)"
    by simp
  from C7_no_start_while_active [OF r, of Click] C7_no_start_while_active [OF q, of Click]
    recording_fields r p q
  show ?thesis by simp
qed



text \<open>
  C10. Without a recognition object, \<open>startRecognition\<close> clears \<open>finalTranscript\<close>,
  \<open>interimTranscript\<close> and \<open>errorMessage\<close>, sets \<open>isButtonDisabled\<close> and makes no call.
  No event of the capability changes the state it leaves, and through any inputs
  afterwards \<open>isButtonDisabled\<close> stays true.
\<close>

theorem C10_start_without_recognition:
  assumes "recognition s = None"
  shows "finalTranscript (startRecognition s) = []
    \<and> interimTranscript (startRecognition s) = []
    \<and> errorMessage (startRecognition s) = []
    \<and> isButtonDisabled (startRecognition s) = True
    \<and> calls (startRecognition s) = calls s
    \<and> dispatch event (startRecognition s) = startRecognition s
    \<and> isButtonDisabled (run inputs (startRecognition s)) = True
    \<and> run inputs (startRecognition s) = startRecognition s"
proof -
  from assms have fields: "finalTranscript (startRecognition s) = []
    \<and> interimTranscript (startRecognition s) = []
    \<and> errorMessage (startRecognition s) = []
    \<and> isButtonDisabled (startRecognition s) = True
    \<and> calls (startRecognition s) = calls s
    \<and> recognition (startRecognition s) = None"
    by (simp add: startRecognition_def recognition_start_def)
  then have "run inputs (startRecognition s) = startRecognition s"
    by (simp add: run_disabled_without_recognition)
  with fields show ?thesis
    by (simp add: dispatch_without_recognition)
qed

theorem C10_start_without_recognition_witness:
  "recognition (onMount unsupported_window initial_state) = None
   \<and> isButtonDisabled (startRecognition (onMount unsupported_window initial_state)) = True
   \<and> calls (startRecognition (onMount unsupported_window initial_state)) = []
   \<and> isButtonDisabled (run [Capability StartEvent, Capability EndEvent, Click]
        (startRecognition (onMount unsupported_window initial_state))) = True"
proof -
  have none: "recognition (onMount unsupported_window initial_state) = None"
    by (simp add: onMount_def unsupported_window_None)
  have "calls (onMount unsupported_window initial_state) = []"
    by (simp add: onMount_def unsupported_window_None initial_state_def)
  with C10_start_without_recognition [OF none,
      of _ "[Capability StartEvent, Capability EndEvent, Click]"] none
  show ?thesis by simp
qed

end
